theory Spec2Isabelle
  imports Main
begin

section \<open>Python built-ins used by workflow\_runner.py\<close>

text \<open>
  The script is Python 2. Its strings are byte strings, modelled as \<open>string\<close>; its
  integers are unbounded, modelled as \<open>int\<close>. Every exception the script can meet is a
  value of \<open>exn\<close>.
\<close>

datatype exn =
    KeyError string             \<comment> \<open>\<open>raw_cmd % convenience_variables\<close>: a name missing from the mapping\<close>
  | ValueError                  \<comment> \<open>malformed format string, or \<open>int()\<close> of a non-number\<close>
  | TypeError                   \<comment> \<open>a conversion applied to an argument of the wrong type\<close>
  | ConfigException             \<comment> \<open>DSConfig.get: the option is not defined (\<open>NoOptionError\<close>)\<close>
  | ConfigParserError           \<comment> \<open>any other ConfigParser error; DSConfig.get lets it through\<close>
  | Exception string            \<comment> \<open>the plain \<open>Exception\<close> raised by \<open>run_cmd\<close>, with its message\<close>
  | RuntimeError                \<comment> \<open>maximum recursion depth exceeded\<close>

subsection \<open>Characters and whitespace\<close>

definition isspace :: "char \<Rightarrow> bool" where
  "isspace c = (c \<in> set [CHR '' '', CHR 0x09, CHR 0x0A, CHR 0x0B, CHR 0x0C, CHR 0x0D])"

definition isdigit :: "char \<Rightarrow> bool" where
  "isdigit c = (c \<in> set ''0123456789'')"

text \<open>\<open>s.strip()\<close>: whitespace removed at both ends.\<close>

definition strip :: "string \<Rightarrow> string" where
  "strip s = rev (dropWhile isspace (rev (dropWhile isspace s)))"

text \<open>\<open>s.lower()\<close> on ASCII letters.\<close>

definition lower_char :: "char \<Rightarrow> char" where
  "lower_char c =
     (let n = (of_char c :: nat) in if 65 \<le> n \<and> n \<le> 90 then char_of (n + 32) else c)"

definition lower :: "string \<Rightarrow> string" where
  "lower s = map lower_char s"

text \<open>
  \<open>s.replace(old, new)\<close>: the occurrences of \<open>old\<close> are replaced from left to right,
  without overlap. The script only calls it with \<open>old = '_PERC_'\<close>.
\<close>

function py_replace :: "string \<Rightarrow> string \<Rightarrow> string \<Rightarrow> string" where
  "py_replace old new s =
     (if old = [] then new @ concat (map (\<lambda>c. c # new) s)
      else if s = [] then []
      else if take (length old) s = old then new @ py_replace old new (drop (length old) s)
      else hd s # py_replace old new (tl s))"
  by pat_completeness auto
termination
  by (relation "measure (\<lambda>(old, new, s). length s)") auto

declare py_replace.simps [simp del]

text \<open>\<open>old in s\<close>: \<open>old\<close> occurs in \<open>s\<close> as a substring.\<close>

fun occurs :: "string \<Rightarrow> string \<Rightarrow> bool" where
  "occurs old [] = (old = [])"
| "occurs old (c # cs) = (take (length old) (c # cs) = old \<or> occurs old cs)"

text \<open>\<open>s[0:n]\<close>, where \<open>n\<close> may be \<open>None\<close> (no bound) or negative (counted from the end).\<close>

definition slice0 :: "string \<Rightarrow> int option \<Rightarrow> string" where
  "slice0 s n =
     (case n of
        None \<Rightarrow> s
      | Some k \<Rightarrow> if 0 \<le> k then take (nat k) s else take (nat (int (length s) + k)) s)"

text \<open>\<open>s.split(',')\<close>: always at least one field.\<close>

fun split_on :: "char \<Rightarrow> string \<Rightarrow> string list" where
  "split_on sep [] = [[]]"
| "split_on sep (c # cs) =
     (if c = sep then [] # split_on sep cs
      else (case split_on sep cs of [] \<Rightarrow> [[c]] | w # ws \<Rightarrow> (c # w) # ws))"

subsection \<open>Decimal numerals: \<open>str(n)\<close>, \<open>'%d' % n\<close> and \<open>int(s)\<close>\<close>

definition digit_char :: "nat \<Rightarrow> char" where
  "digit_char d = ''0123456789'' ! d"

definition digit_val :: "char \<Rightarrow> nat" where
  "digit_val c = of_char c - 48"

fun digits :: "nat \<Rightarrow> string" where
  "digits n = (if n < 10 then [digit_char n] else digits (n div 10) @ [digit_char (n mod 10)])"

declare digits.simps [simp del]

definition str_int :: "int \<Rightarrow> string" where
  "str_int i = (if i < 0 then CHR ''-'' # digits (nat (- i)) else digits (nat i))"

definition number :: "string \<Rightarrow> nat" where
  "number ds = foldl (\<lambda>a c. 10 * a + digit_val c) 0 ds"

text \<open>
  \<open>int(s)\<close> in base 10, as Python 2 parses a \<open>str\<close>: blanks, an optional sign, blanks,
  at least one digit, blanks, and nothing else.
\<close>

definition py_int :: "string \<Rightarrow> exn + int" where
  "py_int s =
     (let s1 = dropWhile isspace s;
          neg = (s1 \<noteq> [] \<and> hd s1 = CHR ''-'');
          s2 = (if s1 \<noteq> [] \<and> (hd s1 = CHR ''-'' \<or> hd s1 = CHR ''+'') then tl s1 else s1);
          s3 = dropWhile isspace s2;
          ds = takeWhile isdigit s3;
          rest = dropWhile isspace (dropWhile isdigit s3)
      in if ds = [] \<or> rest \<noteq> [] then Inl ValueError
         else Inr (if neg then - int (number ds) else int (number ds)))"

subsection \<open>Values of the variable mapping\<close>

text \<open>
  The values of \<open>convenience_variables\<close> are byte strings, except \<open>now\<close>, a
  \<open>datetime\<close>. A value that is not a string is kept as its two renderings, \<open>str()\<close> and
  \<open>repr()\<close>; no value is a number.
\<close>

datatype pyval = PyStr string | PyObj string string

type_synonym variables = "string \<rightharpoonup> pyval"

definition hex_char :: "nat \<Rightarrow> char" where
  "hex_char d = ''0123456789abcdef'' ! d"

definition repr_char :: "char \<Rightarrow> char \<Rightarrow> string" where
  "repr_char quote c =
     (let n = (of_char c :: nat) in
      if c = quote \<or> c = CHR 0x5C then [CHR 0x5C, c]
      else if c = CHR 0x09 then [CHR 0x5C, CHR ''t'']
      else if c = CHR 0x0A then [CHR 0x5C, CHR ''n'']
      else if c = CHR 0x0D then [CHR 0x5C, CHR ''r'']
      else if n < 32 \<or> 127 \<le> n then [CHR 0x5C, CHR ''x'', hex_char (n div 16), hex_char (n mod 16)]
      else [c])"

text \<open>\<open>repr(s)\<close> of a byte string: single quotes, unless it holds one and no double quote.\<close>

definition repr_str :: "string \<Rightarrow> string" where
  "repr_str s =
     (let quote = (if CHR 0x27 \<in> set s \<and> CHR 0x22 \<notin> set s then CHR 0x22 else CHR 0x27)
      in [quote] @ concat (map (repr_char quote) s) @ [quote])"

fun py_str :: "pyval \<Rightarrow> string" where
  "py_str (PyStr s) = s"
| "py_str (PyObj s r) = s"

fun py_repr :: "pyval \<Rightarrow> string" where
  "py_repr (PyStr s) = repr_str s"
| "py_repr (PyObj s r) = r"

subsection \<open>The formatting operator \<open>fmt % mapping\<close>\<close>

text \<open>
  The operator reads the format one character at a time. Outside a conversion it copies
  the character; after a percent sign it reads, in this order, an optional \<open>(key)\<close>
  with balanced parentheses (looked up at once, \<open>KeyError\<close> when missing), flags, a
  width, a precision, a length modifier and the conversion character. The argument of
  a conversion is the value of its key; a conversion without a key takes the argument
  that is current (the mapping itself at first) if no conversion has used it yet.
  A format that ends inside a conversion is a \<open>ValueError\<close>.

  Widths and precisions are natural numbers without bound: the limits of the
  interpreter's memory are not part of the model. The rendering of the mapping itself,
  which depends on the interpreter's hash order, is the parameter \<open>repr_dict\<close>.
\<close>

datatype arg = Mapping | Val pyval

datatype mode =
    Text
  | Start
  | Key nat string
  | Flags bool
  | Width bool nat
  | Dot bool "nat option"
  | Prec bool "nat option" nat
  | Len bool "nat option" "nat option"

record fstate =
  out :: string
  arg :: arg
  unused :: bool
  mode :: mode

definition pad :: "bool \<Rightarrow> nat option \<Rightarrow> string \<Rightarrow> string" where
  "pad ljust width s =
     (case width of
        None \<Rightarrow> s
      | Some w \<Rightarrow> if ljust then s @ replicate (w - length s) CHR '' ''
                  else replicate (w - length s) CHR '' '' @ s)"

definition trunc :: "nat option \<Rightarrow> string \<Rightarrow> string" where
  "trunc prec s = (case prec of None \<Rightarrow> s | Some p \<Rightarrow> take p s)"

definition render :: "string \<Rightarrow> char \<Rightarrow> nat option \<Rightarrow> arg \<Rightarrow> exn + string" where
  "render dict_repr c prec a =
     (if c = CHR ''s'' then
        Inr (trunc prec (case a of Mapping \<Rightarrow> dict_repr | Val v \<Rightarrow> py_str v))
      else if c = CHR ''r'' then
        Inr (trunc prec (case a of Mapping \<Rightarrow> dict_repr | Val v \<Rightarrow> py_repr v))
      else if c \<in> set ''idouxXeEfFgG'' then Inl TypeError
      else if c = CHR ''c'' then
        (case a of Val (PyStr [ch]) \<Rightarrow> Inr [ch] | _ \<Rightarrow> Inl TypeError)
      else Inl ValueError)"

definition convert ::
  "string \<Rightarrow> bool \<Rightarrow> nat option \<Rightarrow> nat option \<Rightarrow> char \<Rightarrow> fstate \<Rightarrow> exn + fstate" where
  "convert dict_repr ljust width prec c st =
     (if c = CHR ''%'' then Inr (st\<lparr>out := out st @ pad ljust width ''%'', mode := Text\<rparr>)
      else if \<not> unused st then Inl TypeError
      else (case render dict_repr c prec (arg st) of
              Inl e \<Rightarrow> Inl e
            | Inr s \<Rightarrow> Inr (st\<lparr>out := out st @ pad ljust width s, unused := False, mode := Text\<rparr>)))"

definition after_prec ::
  "string \<Rightarrow> bool \<Rightarrow> nat option \<Rightarrow> nat option \<Rightarrow> char \<Rightarrow> fstate \<Rightarrow> exn + fstate" where
  "after_prec dict_repr ljust width prec c st =
     (if c \<in> set ''hlL'' then Inr (st\<lparr>mode := Len ljust width prec\<rparr>)
      else convert dict_repr ljust width prec c st)"

definition after_width ::
  "string \<Rightarrow> bool \<Rightarrow> nat option \<Rightarrow> char \<Rightarrow> fstate \<Rightarrow> exn + fstate" where
  "after_width dict_repr ljust width c st =
     (if c = CHR ''.'' then Inr (st\<lparr>mode := Dot ljust width\<rparr>)
      else after_prec dict_repr ljust width None c st)"

definition flags_step :: "string \<Rightarrow> bool \<Rightarrow> char \<Rightarrow> fstate \<Rightarrow> exn + fstate" where
  "flags_step dict_repr ljust c st =
     (if c \<in> set ''-+ #0'' then Inr (st\<lparr>mode := Flags (ljust \<or> c = CHR ''-'')\<rparr>)
      else if c = CHR ''*'' then Inl TypeError
      else if isdigit c then Inr (st\<lparr>mode := Width ljust (digit_val c)\<rparr>)
      else after_width dict_repr ljust None c st)"

definition step :: "string \<Rightarrow> variables \<Rightarrow> fstate \<Rightarrow> char \<Rightarrow> exn + fstate" where
  "step dict_repr vars st c =
     (case mode st of
        Text \<Rightarrow>
          if c = CHR ''%'' then Inr (st\<lparr>mode := Start\<rparr>) else Inr (st\<lparr>out := out st @ [c]\<rparr>)
      | Start \<Rightarrow>
          if c = CHR ''('' then Inr (st\<lparr>mode := Key 1 []\<rparr>)
          else flags_step dict_repr False c st
      | Key depth k \<Rightarrow>
          if c = CHR '')'' then
            (if depth \<le> 1 then
               (case vars k of
                  None \<Rightarrow> Inl (KeyError k)
                | Some v \<Rightarrow> Inr (st\<lparr>arg := Val v, unused := True, mode := Flags False\<rparr>))
             else Inr (st\<lparr>mode := Key (depth - 1) (k @ [c])\<rparr>))
          else if c = CHR ''('' then Inr (st\<lparr>mode := Key (depth + 1) (k @ [c])\<rparr>)
          else Inr (st\<lparr>mode := Key depth (k @ [c])\<rparr>)
      | Flags ljust \<Rightarrow> flags_step dict_repr ljust c st
      | Width ljust w \<Rightarrow>
          if isdigit c then Inr (st\<lparr>mode := Width ljust (10 * w + digit_val c)\<rparr>)
          else after_width dict_repr ljust (Some w) c st
      | Dot ljust width \<Rightarrow>
          if c = CHR ''*'' then Inl TypeError
          else if isdigit c then Inr (st\<lparr>mode := Prec ljust width (digit_val c)\<rparr>)
          else after_prec dict_repr ljust width (Some 0) c st
      | Prec ljust width p \<Rightarrow>
          if isdigit c then Inr (st\<lparr>mode := Prec ljust width (10 * p + digit_val c)\<rparr>)
          else after_prec dict_repr ljust width (Some p) c st
      | Len ljust width prec \<Rightarrow> convert dict_repr ljust width prec c st)"

fun feed :: "string \<Rightarrow> variables \<Rightarrow> fstate \<Rightarrow> string \<Rightarrow> exn + fstate" where
  "feed dict_repr vars st [] = Inr st"
| "feed dict_repr vars st (c # cs) =
     (case step dict_repr vars st c of
        Inl e \<Rightarrow> Inl e
      | Inr st' \<Rightarrow> feed dict_repr vars st' cs)"

definition py_format :: "(variables \<Rightarrow> string) \<Rightarrow> string \<Rightarrow> variables \<Rightarrow> exn + string" where
  "py_format repr_dict fmt vars =
     (case feed (repr_dict vars) vars \<lparr>out = [], arg = Mapping, unused = True, mode = Text\<rparr> fmt of
        Inl e \<Rightarrow> Inl e
      | Inr st \<Rightarrow> if mode st = Text then Inr (out st) else Inl ValueError)"

section \<open>workflow\_runner.py\<close>

subsection \<open>\<open>prepare_cmd\<close>\<close>

text \<open>
  \<open>prepare_cmd\<close> substitutes the variables, then restores \<open>_PERC_\<close> to a percent sign.
  Only \<open>KeyError\<close> is caught in the source, and turned into a \<open>WorkflowException\<close>;
  constructing that exception runs the cleanup and exits, which needs the engine's
  state. The model returns the exception as a value and both callers of \<open>prepare_cmd\<close>
  (\<open>run_command\<close> and \<open>WorkflowException\<close> below) do what the handler does.
\<close>

definition prepare_cmd :: "(variables \<Rightarrow> string) \<Rightarrow> string \<Rightarrow> variables \<Rightarrow> exn + string" where
  "prepare_cmd repr_dict raw_cmd convenience_variables =
     (case py_format repr_dict raw_cmd convenience_variables of
        Inl e \<Rightarrow> Inl e
      | Inr cmd_substituted \<Rightarrow> Inr (py_replace ''_PERC_'' ''%'' cmd_substituted))"

subsection \<open>The configuration: dslib/dsconfig.py\<close>

text \<open>
  A \<open>DSConfig\<close> read from ini files holds the options of the application's section,
  here \<open>[workflow_config]\<close>, as \<open>SafeConfigParser\<close> returns them. \<open>get\<close> raises
  \<open>ConfigException\<close> for an option that is not defined; an option whose value cannot be
  interpolated, or a file without the section, makes ConfigParser raise an error of its
  own that \<open>get\<close> does not catch. \<open>has_option\<close> never raises.
\<close>

datatype entry = Value string | Uninterpolable

datatype config = NoSection | Section "(string \<times> entry) list"

fun has_option :: "config \<Rightarrow> string \<Rightarrow> bool" where
  "has_option NoSection option = False"
| "has_option (Section items) option = (map_of items option \<noteq> None)"

fun get :: "config \<Rightarrow> string \<Rightarrow> exn + string" where
  "get NoSection option = Inl ConfigParserError"
| "get (Section items) option =
     (case map_of items option of
        None \<Rightarrow> Inl ConfigException
      | Some (Value v) \<Rightarrow> Inr v
      | Some Uninterpolable \<Rightarrow> Inl ConfigParserError)"

text \<open>\<open>get(option, 'list')\<close>: the value split at commas, each field stripped.\<close>

definition get_list :: "config \<Rightarrow> string \<Rightarrow> exn + string list" where
  "get_list cfg option =
     (case get cfg option of
        Inl e \<Rightarrow> Inl e
      | Inr config_value \<Rightarrow> Inr (map strip (split_on CHR '','' config_value)))"

subsection \<open>The world outside the script\<close>

text \<open>
  The shell, the clock, the files and the renderings of the library's own objects are
  parameters. \<open>shell\<close> is \<open>subprocess.Popen(..., shell=True)\<close> with \<open>wait\<close> and
  \<open>communicate\<close>: it returns standard output, standard error and the return code, and
  changes the world. \<open>DSConfig\<close> is the constructor called on the file name: the
  configuration, or the message of the exception it raised.
\<close>

record ('w, 't) env =
  DSConfig :: "string \<Rightarrow> string + config"
  shell :: "'w \<Rightarrow> string \<Rightarrow> (string \<times> string \<times> int) \<times> 'w"
  clock :: "'w \<Rightarrow> 't"
  str_datetime :: "'t \<Rightarrow> string"
  repr_datetime :: "'t \<Rightarrow> string"
  strftime :: "'t \<Rightarrow> string \<Rightarrow> string"
  str_elapsed :: "'t \<Rightarrow> 't \<Rightarrow> string"
  repr_dict :: "variables \<Rightarrow> string"
  recursion_limit :: nat

text \<open>
  The state of a run: the world, the variable mapping, the start times kept by
  \<open>WorkflowRuntime\<close>, and what was printed, one entry for each \<open>print\<close>.
\<close>

record ('w, 't) state =
  world :: 'w
  convenience_variables :: variables
  runtimes :: "string \<rightharpoonup> 't"
  printed :: "string list"

text \<open>
  How the process ends: it runs to the end of the script, it calls \<open>sys.exit\<close>, or an
  exception reaches the top level. \<open>sys.exit(None)\<close> is exit status 0; \<open>sys.exit\<close> of a
  string writes it to standard error with status 1, as an uncaught exception does with
  its traceback.
\<close>

datatype outcome = Completed | SysExit "string option" | Uncaught exn

fun exit_status :: "outcome \<Rightarrow> nat" where
  "exit_status Completed = 0"
| "exit_status (SysExit None) = 0"
| "exit_status (SysExit (Some msg)) = 1"
| "exit_status (Uncaught e) = 1"

definition newline :: string where
  "newline = [CHR 0x0A]"

definition print :: "string \<Rightarrow> ('w, 't) state \<Rightarrow> ('w, 't) state" where
  "print line st = st\<lparr>printed := printed st @ [line]\<rparr>"

subsection \<open>\<open>print_usage\<close> and \<open>run_cmd\<close>\<close>

definition print_usage :: "('w, 't) state \<Rightarrow> ('w, 't) state" where
  "print_usage st =
     print ''e.g. ./workflow_runner.py /opt/datasrv/share/bin/config/WF-reporting-current_balances.ini''
       (print ''Usage: workflow_runner.py <full path to workflow config ini> <starting command num, default 1>''
          (print ''Workflow Runner v1.1'' st))"

text \<open>
  \<open>run_cmd\<close> returns the stripped standard output, or raises a plain \<open>Exception\<close>:
  \<open>Inl\<close> carries its message.
\<close>

definition unexpected :: "string \<Rightarrow> int \<Rightarrow> string \<Rightarrow> string" where
  "unexpected result_value return_code err =
     result_value @ newline @ ''Unexpected return code or value: ''
       @ str_int return_code @ '', '' @ err"

definition run_cmd :: "('w, 't) env \<Rightarrow> 'w \<Rightarrow> string \<Rightarrow> (string + string) \<times> 'w" where
  "run_cmd env w full_cmd =
     (case shell env w full_cmd of
        ((result_value, err, return_code), w') \<Rightarrow>
          if err \<noteq> [] \<or> return_code \<noteq> 0 then
            (Inl (unexpected result_value return_code err), w')
          else (Inr (strip result_value), w'))"

subsection \<open>\<open>get_workflow_cmd_num\<close>\<close>

text \<open>Decimal numerals are read back as written, so \<open>str\<close> is injective on integers.\<close>

lemma digit_val_digit_char: "d < 10 \<Longrightarrow> digit_val (digit_char d) = d"
proof -
  assume "d < 10"
  then have "d \<in> {0,1,2,3,4,5,6,7,8,9}" by auto
  then show ?thesis by (auto simp: digit_val_def digit_char_def)
qed

lemma digit_char_not_minus: "d < 10 \<Longrightarrow> digit_char d \<noteq> CHR ''-''"
proof -
  assume "d < 10"
  then have "d \<in> {0,1,2,3,4,5,6,7,8,9}" by auto
  then show ?thesis by (auto simp: digit_char_def)
qed

lemma number_snoc: "number (ds @ [c]) = 10 * number ds + digit_val c"
  by (simp add: number_def)

lemma number_digits: "number (digits n) = n"
proof (induction n rule: digits.induct)
  case (1 n)
  show ?case
  proof (cases "n < 10")
    case True
    then show ?thesis by (simp add: digits.simps [of n] number_def digit_val_digit_char)
  next
    case False
    with 1 show ?thesis
      by (simp add: digits.simps [of n] number_snoc digit_val_digit_char)
  qed
qed

lemma digits_nonempty: "digits n \<noteq> []"
  by (subst digits.simps) simp

lemma hd_digits_not_minus: "hd (digits n) \<noteq> CHR ''-''"
proof (induction n rule: digits.induct)
  case (1 n)
  show ?case
  proof (cases "n < 10")
    case True
    then show ?thesis by (simp add: digits.simps [of n] digit_char_not_minus)
  next
    case False
    with 1 show ?thesis
      by (simp add: digits.simps [of n] digits_nonempty)
  qed
qed

lemma digits_inj: "digits m = digits n \<Longrightarrow> m = n"
  by (metis number_digits)

lemma str_int_inj: "str_int i = str_int j \<Longrightarrow> i = j"
proof -
  assume eq: "str_int i = str_int j"
  have neg: "hd (str_int k) = CHR ''-'' \<longleftrightarrow> k < 0" for k
    by (simp add: str_int_def hd_digits_not_minus)
  from eq have same: "i < 0 \<longleftrightarrow> j < 0" using neg by metis
  show ?thesis
  proof (cases "i < 0")
    case True
    with same eq have "digits (nat (- i)) = digits (nat (- j))" by (simp add: str_int_def)
    then have "nat (- i) = nat (- j)" by (rule digits_inj)
    with True same show ?thesis by simp
  next
    case False
    with same eq have "digits (nat i) = digits (nat j)" by (simp add: str_int_def)
    then have "nat i = nat j" by (rule digits_inj)
    with False same show ?thesis by simp
  qed
qed

text \<open>
  The names a configuration defines, and among them the numerals of the numbers from
  \<open>n\<close> upwards: the probe's measure.
\<close>

definition option_names :: "config \<Rightarrow> string set" where
  "option_names cfg = (case cfg of NoSection \<Rightarrow> {} | Section items \<Rightarrow> fst ` set items)"

lemma has_option_names: "has_option cfg k \<longleftrightarrow> k \<in> option_names cfg"
  by (cases cfg) (auto simp: option_names_def map_of_eq_None_iff)

lemma finite_option_names: "finite (option_names cfg)"
  by (cases cfg) (auto simp: option_names_def)

definition pending :: "config \<Rightarrow> int \<Rightarrow> string set" where
  "pending cfg n = {k \<in> option_names cfg. \<exists>m\<ge>n. k = str_int m}"

lemma pending_decreases:
  assumes "has_option cfg (str_int n)"
  shows "card (pending cfg (n + 1)) < card (pending cfg n)"
proof (rule psubset_card_mono)
  show "finite (pending cfg n)" by (simp add: pending_def finite_option_names)
  have "str_int n \<in> pending cfg n"
    using assms by (auto simp: pending_def has_option_names)
  moreover have "str_int n \<notin> pending cfg (n + 1)"
    by (auto simp: pending_def dest: str_int_inj)
  moreover have "pending cfg (n + 1) \<subseteq> pending cfg n"
  proof
    fix k assume "k \<in> pending cfg (n + 1)"
    then obtain m where "k \<in> option_names cfg" "n + 1 \<le> m" "k = str_int m"
      by (auto simp: pending_def)
    then have "k \<in> option_names cfg \<and> n \<le> m \<and> k = str_int m" by simp
    then show "k \<in> pending cfg n" unfolding pending_def by blast
  qed
  ultimately show "pending cfg (n + 1) \<subset> pending cfg n" by blast
qed

text \<open>
  The \<open>while True\<close> loop of \<open>get_workflow_cmd_num\<close>: it ends at the first number that
  is not an option. It terminates because a configuration has finitely many options.
\<close>

function probe :: "config \<Rightarrow> int \<Rightarrow> int list \<Rightarrow> int list" where
  "probe workflow_config cmd_num cmd_num_list =
     (if has_option workflow_config (str_int cmd_num) then
        probe workflow_config (cmd_num + 1)
          (if cmd_num \<notin> set cmd_num_list then cmd_num_list @ [cmd_num] else cmd_num_list)
      else cmd_num_list)"
  by pat_completeness auto
termination
  by (relation "measure (\<lambda>(cfg, n, l). card (pending cfg n))") (auto simp: pending_decreases)

declare probe.simps [simp del]

text \<open>
  The number at which the loop stops: the first one, from \<open>cmd_num\<close> upwards, that is
  not an option of the configuration.
\<close>

function first_missing :: "config \<Rightarrow> int \<Rightarrow> int" where
  "first_missing workflow_config cmd_num =
     (if has_option workflow_config (str_int cmd_num) then first_missing workflow_config (cmd_num + 1)
      else cmd_num)"
  by pat_completeness auto
termination
  by (relation "measure (\<lambda>(cfg, n). card (pending cfg n))") (auto simp: pending_decreases)

declare first_missing.simps [simp del]

text \<open>\<open>[int(x) for x in ...]\<close>: the first field that is not a number raises.\<close>

fun ints :: "string list \<Rightarrow> exn + int list" where
  "ints [] = Inr []"
| "ints (x # xs) =
     (case py_int x of
        Inl e \<Rightarrow> Inl e
      | Inr n \<Rightarrow> (case ints xs of Inl e \<Rightarrow> Inl e | Inr ns \<Rightarrow> Inr (n # ns)))"

text \<open>
  The list the generator starts from: \<open>always_run_cmds\<close> when the starting number is
  above 1 and the directive is defined, the empty list otherwise.
\<close>

definition always_run_cmds :: "int \<Rightarrow> config \<Rightarrow> exn + int list" where
  "always_run_cmds starting_cmd_num workflow_config =
     (if starting_cmd_num > 1 then
        (case get_list workflow_config ''always_run_cmds'' of
           Inl e \<Rightarrow> if e = ConfigException then Inr [] else Inl e
         | Inr xs \<Rightarrow> ints xs)
      else Inr [])"

text \<open>
  The generator computes the whole list before it yields its first number, so the model
  returns the list. An empty list raises \<open>WFConfigException\<close>, whose constructor calls
  \<open>sys.exit\<close> with the message.
\<close>

definition get_workflow_cmd_num :: "int \<Rightarrow> config \<Rightarrow> outcome + int list" where
  "get_workflow_cmd_num starting_cmd_num workflow_config =
     (case always_run_cmds starting_cmd_num workflow_config of
        Inl e \<Rightarrow> Inl (Uncaught e)
      | Inr always \<Rightarrow>
          (let cmd_num_list = probe workflow_config starting_cmd_num always
           in if length cmd_num_list = 0 then Inl (SysExit (Some ''No workflow commands found.''))
              else Inr (sort cmd_num_list)))"

subsection \<open>\<open>WorkflowRuntime\<close>\<close>

definition track :: "('w, 't) env \<Rightarrow> bool \<Rightarrow> string \<Rightarrow> ('w, 't) state \<Rightarrow> ('w, 't) state" where
  "track env report_runtime thing st =
     (if report_runtime then st\<lparr>runtimes := (runtimes st)(thing \<mapsto> clock env (world st))\<rparr>
      else st)"

text \<open>\<open>report\<close> returns a string or \<open>False\<close>; \<open>None\<close> stands for \<open>False\<close>.\<close>

definition report :: "('w, 't) env \<Rightarrow> string \<Rightarrow> ('w, 't) state \<Rightarrow> string option" where
  "report env thing st =
     (case runtimes st thing of
        None \<Rightarrow> None
      | Some started \<Rightarrow> Some (str_elapsed env started (clock env (world st))))"

text \<open>\<open>if runtime: print ...\<close>: \<open>False\<close> and the empty string print nothing.\<close>

definition print_runtime :: "string \<Rightarrow> string option \<Rightarrow> ('w, 't) state \<Rightarrow> ('w, 't) state" where
  "print_runtime label runtime st =
     (case runtime of
        None \<Rightarrow> st
      | Some r \<Rightarrow> if r = [] then st else print (label @ r) st)"

subsection \<open>\<open>WorkflowException\<close>\<close>

definition premature_end :: "int \<Rightarrow> string \<Rightarrow> string" where
  "premature_end command_num emsg =
     ''Workflow ended prematurely, #'' @ str_int command_num @ '' command error: '' @ emsg"

definition required_variable :: "string \<Rightarrow> string" where
  "required_variable k = ''Required variable not found during execution '' @ repr_str k"

text \<open>
  The constructor of \<open>WorkflowException\<close> runs the cleanup command and exits. Its
  \<open>try\<close> catches \<open>ConfigException\<close> only: any other exception raised inside leaves the
  constructor. When the cleanup command itself names a missing variable,
  \<open>prepare_cmd\<close> constructs a second \<open>WorkflowException\<close> with the same arguments but
  the message; \<open>depth\<close> is the number of such nested constructions the interpreter's
  stack still allows.
\<close>

fun WorkflowException ::
  "nat \<Rightarrow> ('w, 't) env \<Rightarrow> config \<Rightarrow> int \<Rightarrow> string \<Rightarrow> ('w, 't) state \<Rightarrow> outcome \<times> ('w, 't) state" where
  "WorkflowException depth env workflow_config command_num emsg st =
     (case get workflow_config ''premature_end_cmd'' of
        Inl e \<Rightarrow>
          if e = ConfigException then (SysExit (Some (premature_end command_num emsg)), st)
          else (Uncaught e, st)
      | Inr raw_cmd \<Rightarrow>
          (case prepare_cmd (repr_dict env) raw_cmd (convenience_variables st) of
             Inl e \<Rightarrow>
               (case e of
                  KeyError k \<Rightarrow>
                    (case depth of
                       0 \<Rightarrow> (Uncaught RuntimeError, st)
                     | Suc d \<Rightarrow>
                         WorkflowException d env workflow_config command_num
                           (required_variable k) st)
                | _ \<Rightarrow> (Uncaught e, st))
           | Inr cleanup_cmd \<Rightarrow>
               (case run_cmd env (world st) cleanup_cmd of
                  (Inl failure, w') \<Rightarrow> (Uncaught (Exception failure), st\<lparr>world := w'\<rparr>)
                | (Inr cleanup_output, w') \<Rightarrow>
                    (SysExit (Some (premature_end command_num emsg)),
                     print (''#Premature workflow end command executed ...'' @ newline
                              @ cleanup_output) (st\<lparr>world := w'\<rparr>)))))"

declare WorkflowException.simps [simp del]

subsection \<open>The command loop\<close>

definition cmd_output_name :: "int \<Rightarrow> string" where
  "cmd_output_name command_num = ''cmd_'' @ str_int command_num @ ''_output''"

text \<open>
  One pass through the body of the \<open>for\<close> loop. The result is \<open>None\<close> when the loop
  goes on to the next command, and the way the process ended otherwise.
\<close>

definition run_command ::
  "('w, 't) env \<Rightarrow> config \<Rightarrow> int option \<Rightarrow> bool \<Rightarrow> int \<Rightarrow> ('w, 't) state
     \<Rightarrow> outcome option \<times> ('w, 't) state" where
  "run_command env workflow_config num_chars_to_log report_runtime command_num st =
     (case get workflow_config (str_int command_num) of
        Inl e \<Rightarrow> (Some (Uncaught e), st)
      | Inr raw_command \<Rightarrow>
          (case prepare_cmd (repr_dict env) raw_command (convenience_variables st) of
             Inl e \<Rightarrow>
               (case e of
                  KeyError k \<Rightarrow>
                    map_prod Some id
                      (WorkflowException (recursion_limit env) env workflow_config command_num
                         (required_variable k) st)
                | _ \<Rightarrow> (Some (Uncaught e), st))
           | Inr command \<Rightarrow>
               (let st1 = print (''#'' @ str_int command_num @ '' >> ''
                                   @ slice0 command num_chars_to_log @ '' ...'') st;
                    st2 = track env report_runtime (''cmd_'' @ str_int command_num) st1
                in case run_cmd env (world st2) command of
                     (Inl emsg, w') \<Rightarrow>
                       map_prod Some id
                         (WorkflowException (recursion_limit env) env workflow_config command_num
                            emsg (st2\<lparr>world := w'\<rparr>))
                   | (Inr cmd_output, w') \<Rightarrow>
                       (let st3 = st2\<lparr>world := w'\<rparr>;
                            runtime = report env (''cmd_'' @ str_int command_num) st3;
                            st4 = print (slice0 cmd_output num_chars_to_log) st3;
                            st5 = print_runtime (''#'' @ str_int command_num @ '' >> runtime: '')
                                    runtime st4
                        in (None,
                            st5\<lparr>convenience_variables :=
                                  (convenience_variables st5)
                                    (cmd_output_name command_num \<mapsto> PyStr cmd_output)\<rparr>)))))"

fun run_commands ::
  "('w, 't) env \<Rightarrow> config \<Rightarrow> int option \<Rightarrow> bool \<Rightarrow> int list \<Rightarrow> ('w, 't) state
     \<Rightarrow> outcome option \<times> ('w, 't) state" where
  "run_commands env workflow_config num_chars_to_log report_runtime [] st = (None, st)"
| "run_commands env workflow_config num_chars_to_log report_runtime (command_num # rest) st =
     (case run_command env workflow_config num_chars_to_log report_runtime command_num st of
        (Some ended, st') \<Rightarrow> (Some ended, st')
      | (None, st') \<Rightarrow>
          run_commands env workflow_config num_chars_to_log report_runtime rest st')"

subsection \<open>The main program\<close>

definition zookeeper_bin :: string where
  "zookeeper_bin = ''/usr/local/bin/zk''"

text \<open>The optional directive \<open>max_num_chars_cmd_output\<close>; \<open>None\<close> is Python's \<open>None\<close>.\<close>

definition max_num_chars :: "config \<Rightarrow> exn + int option" where
  "max_num_chars workflow_config =
     (case get workflow_config ''max_num_chars_cmd_output'' of
        Inl e \<Rightarrow> if e = ConfigException then Inr None else Inl e
      | Inr v \<Rightarrow> (case py_int v of Inl e \<Rightarrow> Inr None | Inr n \<Rightarrow> Inr (Some n)))"

text \<open>
  The directive \<open>report_runtimes\<close>: the value is kept as it is unless it reads
  \<open>false\<close>, and \<open>WorkflowRuntime.track\<close> tests its truth, so an empty value also
  switches the reports off.
\<close>

definition report_runtimes :: "config \<Rightarrow> exn + bool" where
  "report_runtimes workflow_config =
     (case get workflow_config ''report_runtimes'' of
        Inl e \<Rightarrow> if e = ConfigException then Inr True else Inl e
      | Inr v \<Rightarrow> Inr (lower v \<noteq> ''false'' \<and> v \<noteq> []))"

definition initial_variables :: "('w, 't) env \<Rightarrow> 't \<Rightarrow> variables" where
  "initial_variables env now =
     [''now'' \<mapsto> PyObj (str_datetime env now) (repr_datetime env now),
      ''YrMn'' \<mapsto> PyStr (strftime env now ''%Y%m''),
      ''YrMnDy'' \<mapsto> PyStr (strftime env now ''%Y%m%d''),
      ''curdate'' \<mapsto> PyStr (strftime env now ''%Y-%m-%d'')]"

text \<open>The queue value, read once before the loop when \<open>zk_queue_path\<close> is not empty.\<close>

definition zk_queue :: "('w, 't) env \<Rightarrow> config \<Rightarrow> ('w, 't) state \<Rightarrow> outcome option \<times> ('w, 't) state" where
  "zk_queue env workflow_config st =
     (case get workflow_config ''zk_queue_path'' of
        Inl e \<Rightarrow>
          if e = ConfigException then
            (Some (SysExit (Some ''ZK queue path directive not found in config file (can be empty but must be defined)'')), st)
          else (Some (Uncaught e), st)
      | Inr workflow_zk_queue_path \<Rightarrow>
          if length workflow_zk_queue_path \<noteq> 0 then
            (case run_cmd env (world st) (zookeeper_bin @ '' qpoll '' @ workflow_zk_queue_path) of
               (Inl emsg, w') \<Rightarrow>
                 (Some (SysExit (Some (''Nothing in the workflow queue '' @ [CHR 0x27]
                                        @ workflow_zk_queue_path @ [CHR 0x27]))),
                  st\<lparr>world := w'\<rparr>)
             | (Inr zk_queue_value, w') \<Rightarrow>
                 (None, st\<lparr>world := w',
                           convenience_variables :=
                             (convenience_variables st)(''zk_queue_value'' \<mapsto> PyStr zk_queue_value)\<rparr>))
          else (None, st))"

text \<open>The script from the directive \<open>max_num_chars_cmd_output\<close> to its last line.\<close>

definition workflow ::
  "('w, 't) env \<Rightarrow> config \<Rightarrow> int \<Rightarrow> ('w, 't) state \<Rightarrow> outcome \<times> ('w, 't) state" where
  "workflow env workflow_config starting_command_num st =
     (case max_num_chars workflow_config of
        Inl e \<Rightarrow> (Uncaught e, st)
      | Inr num_chars_to_log \<Rightarrow>
     (case report_runtimes workflow_config of
        Inl e \<Rightarrow> (Uncaught e, st)
      | Inr report_runtime \<Rightarrow>
     (let now = clock env (world st);
          st1 = st\<lparr>convenience_variables := initial_variables env now\<rparr>
      in case zk_queue env workflow_config st1 of
           (Some ended, st2) \<Rightarrow> (ended, st2)
         | (None, st2) \<Rightarrow>
     (let st3 = track env report_runtime ''workflow'' st2
      in case get_workflow_cmd_num starting_command_num workflow_config of
           Inl ended \<Rightarrow> (ended, st3)
         | Inr plan \<Rightarrow>
     (case run_commands env workflow_config num_chars_to_log report_runtime plan st3 of
        (Some ended, st4) \<Rightarrow> (ended, st4)
      | (None, st4) \<Rightarrow>
          (let st5 = print (''Workflow completed at '' @ str_datetime env now) st4;
               wf_runtime = report env ''workflow'' st5
           in (Completed, print_runtime ''>> runtime: '' wf_runtime st5)))))))"

text \<open>
  \<open>main\<close> is the script run with \<open>sys.argv = argv\<close> (the program's name first). With a
  wrong number of arguments it raises \<open>WFConfigException(print_usage())\<close>:
  \<open>print_usage\<close> prints and returns \<open>None\<close>, and the constructor calls \<open>sys.exit(None)\<close>.
\<close>

definition main :: "('w, 't) env \<Rightarrow> 'w \<Rightarrow> string list \<Rightarrow> outcome \<times> ('w, 't) state" where
  "main env w argv =
     (let st = \<lparr>world = w, convenience_variables = Map.empty, runtimes = Map.empty, printed = []\<rparr>
      in if length argv > 1 \<and> length argv < 4 then
           (case DSConfig env (argv ! 1) of
              Inl e \<Rightarrow> (SysExit (Some e), st)
            | Inr workflow_config \<Rightarrow>
                (case (if length argv = 3 then py_int (argv ! 2) else Inr 1) of
                   Inl e \<Rightarrow> (Uncaught e, st)
                 | Inr starting_command_num \<Rightarrow>
                     workflow env workflow_config starting_command_num st))
         else (SysExit None, print_usage st))"

section \<open>Example runs\<close>

text \<open>
  A world for the examples: the shell knows \<open>echo\<close> and nothing else, the world counts
  the commands run so far, and the clock reads that count.
\<close>

definition braces :: "variables \<Rightarrow> string" where
  "braces vars = ''{}''"

definition echo_shell :: "nat \<Rightarrow> string \<Rightarrow> (string \<times> string \<times> int) \<times> nat" where
  "echo_shell w full_cmd =
     (if take 5 full_cmd = ''echo '' then (drop 5 full_cmd @ newline, [], 0)
      else ([], full_cmd @ '': command not found'', 127),
      Suc w)"

definition example_env :: "config \<Rightarrow> (nat, nat) env" where
  "example_env cfg =
     \<lparr>DSConfig = (\<lambda>name. if name = ''wf.ini'' then Inr cfg
                         else Inl ''No configuration files found''),
      shell = echo_shell,
      clock = (\<lambda>w. w),
      str_datetime = (\<lambda>t. str_int (int t)),
      repr_datetime = (\<lambda>t. str_int (int t)),
      strftime = (\<lambda>t format. str_int (int t)),
      str_elapsed = (\<lambda>started t. str_int (int t - int started)),
      repr_dict = braces,
      recursion_limit = 1000\<rparr>"

definition greeting :: config where
  "greeting = Section
     [(''zk_queue_path'', Value []),
      (''max_num_chars_cmd_output'', Value ''5''),
      (''1'', Value ''echo hello world''),
      (''2'', Value ''echo %(cmd_1_output)s again'')]"

definition failing_cleanup :: config where
  "failing_cleanup = Section
     [(''zk_queue_path'', Value []),
      (''1'', Value ''false''),
      (''premature_end_cmd'', Value ''rm -f /tmp/lock'')]"

definition echo_cleanup :: config where
  "echo_cleanup = Section
     [(''zk_queue_path'', Value []),
      (''1'', Value ''false''),
      (''premature_end_cmd'', Value ''echo cleaned up'')]"

definition resumed :: config where
  "resumed = Section
     [(''zk_queue_path'', Value []),
      (''always_run_cmds'', Value ''1,7''),
      (''1'', Value ''echo one''),
      (''2'', Value ''echo two''),
      (''3'', Value ''echo three'')]"

definition dense :: config where
  "dense = Section
     [(''zk_queue_path'', Value []),
      (''1'', Value ''echo one''),
      (''2'', Value ''echo two''),
      (''3'', Value ''echo three'')]"

definition forward_reference :: config where
  "forward_reference = Section
     [(''zk_queue_path'', Value []),
      (''1'', Value ''echo hello''),
      (''2'', Value ''echo %(cmd_1_output)s %(cmd_2_output)s'')]"

definition start :: "(nat, nat) state" where
  "start = \<lparr>world = 0, convenience_variables = Map.empty, runtimes = Map.empty, printed = []\<rparr>"

definition after_first :: "(nat, nat) state" where
  "after_first = \<lparr>world = 1, convenience_variables = [''cmd_1_output'' \<mapsto> PyStr ''hello''],
                   runtimes = Map.empty, printed = []\<rparr>"

section \<open>Properties\<close>

subsection \<open>Formatting\<close>

lemmas format_defs =
  py_format_def step_def flags_step_def after_width_def after_prec_def convert_def render_def
  isdigit_def pad_def trunc_def

lemma feed_text:
  "mode st = Text \<Longrightarrow> CHR ''%'' \<notin> set t \<Longrightarrow> feed d vars st t = Inr (st\<lparr>out := out st @ t\<rparr>)"
proof (induction t arbitrary: st)
  case Nil
  then show ?case by simp
next
  case (Cons c cs)
  from Cons.prems have step: "step d vars st c = Inr (st\<lparr>out := out st @ [c]\<rparr>)"
    by (auto simp: step_def)
  have "feed d vars (st\<lparr>out := out st @ [c]\<rparr>) cs
          = Inr (st\<lparr>out := out st @ [c]\<rparr>\<lparr>out := out (st\<lparr>out := out st @ [c]\<rparr>) @ cs\<rparr>)"
    using Cons.prems by (intro Cons.IH) simp_all
  with step show ?case by simp
qed

lemma py_format_text: "CHR ''%'' \<notin> set t \<Longrightarrow> py_format rd t vars = Inr t"
  by (simp add: py_format_def feed_text)

lemma feed_append:
  "feed d vars st (p @ q) =
     (case feed d vars st p of Inl e \<Rightarrow> Inl e | Inr st' \<Rightarrow> feed d vars st' q)"
  by (induction p arbitrary: st) (auto split: sum.splits)

lemma py_replace_absent: "old \<noteq> [] \<Longrightarrow> \<not> occurs old s \<Longrightarrow> py_replace old new s = s"
proof (induction s)
  case Nil
  then show ?case by (simp add: py_replace.simps)
next
  case (Cons c cs)
  then show ?case by (subst py_replace.simps) simp
qed

lemma feed_key:
  "CHR ''('' \<notin> set k \<Longrightarrow> CHR '')'' \<notin> set k \<Longrightarrow> mode st = Key n acc \<Longrightarrow>
   feed d vars st k = Inr (st\<lparr>mode := Key n (acc @ k)\<rparr>)"
proof (induction k arbitrary: st acc)
  case Nil
  then show ?case by simp
next
  case (Cons c cs)
  from Cons.prems have step: "step d vars st c = Inr (st\<lparr>mode := Key n (acc @ [c])\<rparr>)"
    by (auto simp: step_def)
  have "feed d vars (st\<lparr>mode := Key n (acc @ [c])\<rparr>) cs
          = Inr (st\<lparr>mode := Key n (acc @ [c])\<rparr>\<lparr>mode := Key n ((acc @ [c]) @ cs)\<rparr>)"
    using Cons.prems by (intro Cons.IH) simp_all
  with step show ?case by simp
qed

lemma feed_missing_key:
  assumes "mode st = Text" "CHR ''('' \<notin> set k" "CHR '')'' \<notin> set k" "vars k = None"
  shows "feed d vars st (''%('' @ k @ '')'' @ rest) = Inl (KeyError k)"
proof -
  let ?s1 = "st\<lparr>mode := Start\<rparr>"
  let ?s2 = "?s1\<lparr>mode := Key 1 []\<rparr>"
  let ?s3 = "?s2\<lparr>mode := Key 1 ([] @ k)\<rparr>"
  have a: "step d vars st CHR ''%'' = Inr ?s1" using assms by (simp add: step_def)
  have b: "step d vars ?s1 CHR ''('' = Inr ?s2" by (simp add: step_def)
  have c: "feed d vars ?s2 k = Inr ?s3" using assms by (intro feed_key) simp_all
  have e: "step d vars ?s3 CHR '')'' = Inl (KeyError k)" using assms by (simp add: step_def)
  have "feed d vars ?s2 (k @ '')'' @ rest) = Inl (KeyError k)"
    using c e by (simp add: feed_append)
  with a b show ?thesis by simp
qed

lemma py_format_missing_key:
  assumes "py_format rd p vars = Inr s" "CHR ''('' \<notin> set k" "CHR '')'' \<notin> set k" "vars k = None"
  shows "py_format rd (p @ ''%('' @ k @ '')'' @ rest) vars = Inl (KeyError k)"
proof -
  from assms(1) obtain st where st: "feed (rd vars) vars \<lparr>out = [], arg = Mapping, unused = True, mode = Text\<rparr> p = Inr st"
      and m: "mode st = Text"
    by (auto simp: py_format_def split: sum.splits if_splits)
  have "feed (rd vars) vars st (''%('' @ k @ '')'' @ rest) = Inl (KeyError k)"
    using m assms(2-4) by (rule feed_missing_key)
  with st show ?thesis by (simp add: py_format_def feed_append)
qed


subsection \<open>The sequencer\<close>

lemma first_missing_ge: "n \<le> first_missing cfg n"
proof (induction cfg n rule: first_missing.induct)
  case (1 cfg n)
  show ?case
  proof (cases "has_option cfg (str_int n)")
    case True
    with 1 have "n + 1 \<le> first_missing cfg (n + 1)" by simp
    with True show ?thesis by (subst first_missing.simps) simp
  next
    case False
    then show ?thesis by (subst first_missing.simps) simp
  qed
qed

lemma first_missing_absent: "\<not> has_option cfg (str_int (first_missing cfg n))"
proof (induction cfg n rule: first_missing.induct)
  case (1 cfg n)
  show ?case
  proof (cases "has_option cfg (str_int n)")
    case True
    with 1 show ?thesis by (subst first_missing.simps) simp
  next
    case False
    then show ?thesis by (subst first_missing.simps) simp
  qed
qed

lemma first_missing_present:
  "n \<le> m \<Longrightarrow> m < first_missing cfg n \<Longrightarrow> has_option cfg (str_int m)"
proof (induction cfg n rule: first_missing.induct)
  case (1 cfg n)
  show ?case
  proof (cases "has_option cfg (str_int n)")
    case True
    show ?thesis
    proof (cases "m = n")
      case True
      with \<open>has_option cfg (str_int n)\<close> show ?thesis by simp
    next
      case False
      with "1.prems" have "n + 1 \<le> m" by simp
      moreover from "1.prems" True have "m < first_missing cfg (n + 1)"
        by (subst (asm) first_missing.simps) simp
      ultimately show ?thesis using "1.IH" True by simp
    qed
  next
    case False
    with "1.prems" show ?thesis by (subst (asm) first_missing.simps) simp
  qed
qed

lemma probe_eq:
  "probe cfg n l = l @ filter (\<lambda>m. m \<notin> set l) [n..first_missing cfg n - 1]"
proof (induction cfg n l rule: probe.induct)
  case (1 cfg n l)
  show ?case
  proof (cases "has_option cfg (str_int n)")
    case False
    then have "first_missing cfg n = n" by (subst first_missing.simps) simp
    with False show ?thesis by (subst probe.simps) simp
  next
    case True
    let ?l' = "if n \<notin> set l then l @ [n] else l"
    have fm: "first_missing cfg n = first_missing cfg (n + 1)"
      using True by (subst first_missing.simps) simp
    have le: "n \<le> first_missing cfg (n + 1) - 1"
      using first_missing_ge [of "n + 1" cfg] by simp
    have range: "[n..first_missing cfg n - 1] = n # [n + 1..first_missing cfg (n + 1) - 1]"
      using le fm by (simp add: upto_rec1)
    have IH: "probe cfg (n + 1) ?l' = ?l' @ filter (\<lambda>m. m \<notin> set ?l') [n + 1..first_missing cfg (n + 1) - 1]"
      using "1.IH" True by simp
    have same: "filter (\<lambda>m. m \<notin> set (l @ [n])) [n + 1..first_missing cfg (n + 1) - 1]
                 = filter (\<lambda>m. m \<notin> set l) [n + 1..first_missing cfg (n + 1) - 1]"
      by (rule filter_cong) auto
    have "probe cfg n l = probe cfg (n + 1) ?l'"
      using True by (subst probe.simps) simp
    also have "\<dots> = l @ filter (\<lambda>m. m \<notin> set l) [n..first_missing cfg n - 1]"
      unfolding IH range using same by simp
    finally show ?thesis .
  qed
qed

lemma first_missing_dense:
  assumes "\<forall>n. s \<le> n \<and> n \<le> k \<longrightarrow> has_option cfg (str_int n)"
    and "\<not> has_option cfg (str_int (k + 1))" and "s \<le> k"
  shows "first_missing cfg s = k + 1"
proof -
  have "\<not> (s \<le> first_missing cfg s \<and> first_missing cfg s \<le> k)"
    using assms(1) first_missing_absent [of cfg s] by blast
  then have "k < first_missing cfg s" using first_missing_ge [of s cfg] by simp
  moreover have "\<not> k + 1 < first_missing cfg s"
    using first_missing_present [of s "k + 1" cfg] assms(2,3) by auto
  ultimately show ?thesis by simp
qed

lemma always_run_cmds_absent:
  "get cfg ''always_run_cmds'' = Inl ConfigException \<Longrightarrow> always_run_cmds s cfg = Inr []"
  by (simp add: always_run_cmds_def get_list_def)


lemma str_int_small [simp]:
  "str_int 1 = ''1''" "str_int 2 = ''2''" "str_int 3 = ''3''" "str_int 4 = ''4''"
  by (simp_all add: str_int_def digits.simps digit_char_def)

subsection \<open>Stripping and names\<close>

lemma last_dropWhile: "dropWhile P xs \<noteq> [] \<Longrightarrow> last (dropWhile P xs) = last xs"
  by (induction xs) (auto split: if_splits)

lemma dropWhile_ends:
  assumes u: "dropWhile P (rev (dropWhile P xs)) \<noteq> []"
  shows "\<not> P (hd (rev (dropWhile P (rev (dropWhile P xs)))))
       \<and> \<not> P (last (rev (dropWhile P (rev (dropWhile P xs)))))"
proof -
  define t where "t = dropWhile P xs"
  define u where "u = dropWhile P (rev t)"
  have u_ne: "u \<noteq> []" using u unfolding u_def t_def .
  have t_ne: "t \<noteq> []"
  proof
    assume "t = []"
    then have "u = []" unfolding u_def by simp
    with u_ne show False by contradiction
  qed
  have 1: "\<not> P (hd u)" using u_ne unfolding u_def by (rule hd_dropWhile)
  have 2: "\<not> P (hd t)" using t_ne unfolding t_def by (rule hd_dropWhile)
  have 3: "last u = last (rev t)" using u_ne unfolding u_def by (rule last_dropWhile)
  have 4: "last (rev t) = hd t" using t_ne by (simp add: last_rev)
  have 5: "hd (rev u) = last u" using u_ne by (simp add: hd_rev)
  have 6: "last (rev u) = hd u" using u_ne by (simp add: last_rev)
  from 1 2 3 4 5 6 have "\<not> P (hd (rev u)) \<and> \<not> P (last (rev u))" by simp
  then show ?thesis unfolding u_def t_def .
qed

lemma strip_ends:
  "strip s \<noteq> [] \<Longrightarrow> \<not> isspace (hd (strip s)) \<and> \<not> isspace (last (strip s))"
  unfolding strip_def rev_is_Nil_conv by (rule dropWhile_ends)

lemma digit_char_not_paren:
  "d < 10 \<Longrightarrow> digit_char d \<noteq> CHR ''('' \<and> digit_char d \<noteq> CHR '')''"
proof -
  assume "d < 10"
  then have "d \<in> {0,1,2,3,4,5,6,7,8,9}" by auto
  then show ?thesis by (auto simp: digit_char_def)
qed

lemma digits_no_parens: "CHR ''('' \<notin> set (digits n) \<and> CHR '')'' \<notin> set (digits n)"
proof (induction n rule: digits.induct)
  case (1 n)
  show ?case
  proof (cases "n < 10")
    case True
    have "digits n = [digit_char n]" using True by (subst digits.simps) simp
    then show ?thesis using digit_char_not_paren [OF True] by auto
  next
    case False
    have eq: "digits n = digits (n div 10) @ [digit_char (n mod 10)]"
      using False by (subst digits.simps) simp
    have "n mod 10 < 10" by simp
    from digit_char_not_paren [OF this] 1 [OF False] show ?thesis
      unfolding eq by auto
  qed
qed

lemma str_int_no_parens: "CHR ''('' \<notin> set (str_int i) \<and> CHR '')'' \<notin> set (str_int i)"
  using digits_no_parens [of "nat i"] digits_no_parens [of "nat (- i)"]
  by (simp add: str_int_def)

lemma cmd_output_name_no_parens:
  "CHR ''('' \<notin> set (cmd_output_name n)" "CHR '')'' \<notin> set (cmd_output_name n)"
  using str_int_no_parens [of n] by (simp_all add: cmd_output_name_def)

lemma py_format_lookup:
  assumes "CHR ''('' \<notin> set k" and "CHR '')'' \<notin> set k" and "vars k = Some v"
  shows "py_format rd (''%('' @ k @ '')s'') vars = Inr (py_str v)"
proof -
  let ?d = "rd vars"
  let ?s2 = "\<lparr>out = [], arg = Mapping, unused = True, mode = Key (Suc 0) []\<rparr>"
  let ?s3 = "\<lparr>out = [], arg = Mapping, unused = True, mode = Key (Suc 0) k\<rparr>"
  let ?s4 = "\<lparr>out = [], arg = Val v, unused = True, mode = Flags False\<rparr>"
  let ?s5 = "\<lparr>out = py_str v, arg = Val v, unused = False, mode = Text\<rparr>"
  have "feed ?d vars ?s2 k = Inr (?s2\<lparr>mode := Key (Suc 0) ([] @ k)\<rparr>)"
    using assms(1,2) by (intro feed_key) simp_all
  then have c: "feed ?d vars ?s2 k = Inr ?s3" by simp
  have d: "step ?d vars ?s3 CHR '')'' = Inr ?s4" using assms(3) by (simp add: step_def)
  have e: "step ?d vars ?s4 CHR ''s'' = Inr ?s5"
    by (simp add: step_def flags_step_def after_width_def after_prec_def
        convert_def render_def isdigit_def pad_def trunc_def)
  have "feed ?d vars ?s2 (k @ '')s'') = Inr ?s5"
    by (simp add: feed_append c d e)
  then show ?thesis by (simp add: py_format_def step_def)
qed

subsection \<open>The engine\<close>

lemma print_simps [simp]:
  "world (print l st) = world st"
  "convenience_variables (print l st) = convenience_variables st"
  "runtimes (print l st) = runtimes st"
  "printed (print l st) = printed st @ [l]"
  by (simp_all add: print_def)

lemma track_simps [simp]:
  "world (track env rr thing st) = world st"
  "convenience_variables (track env rr thing st) = convenience_variables st"
  "printed (track env rr thing st) = printed st"
  by (simp_all add: track_def)

lemma print_runtime_simps [simp]:
  "world (print_runtime label r st) = world st"
  "convenience_variables (print_runtime label r st) = convenience_variables st"
  "runtimes (print_runtime label r st) = runtimes st"
  by (simp_all add: print_runtime_def split: option.splits)

lemma printed_print_runtime:
  "take (length (printed st)) (printed (print_runtime label r st)) = printed st"
  by (simp add: print_runtime_def split: option.splits)

lemma run_cmd_success:
  "shell env w c = ((res, [], 0), w') \<Longrightarrow> run_cmd env w c = (Inr (strip res), w')"
  by (simp add: run_cmd_def)

lemma run_cmd_failure:
  "shell env w c = ((res, err, rc), w') \<Longrightarrow> err \<noteq> [] \<or> rc \<noteq> 0 \<Longrightarrow>
   run_cmd env w c =
     (Inl (unexpected res rc err), w')"
  by (auto simp: run_cmd_def)

lemma run_cmd_Inr:
  "run_cmd env w c = (Inr v, w') \<Longrightarrow> v = strip (fst (fst (shell env w c)))"
  by (auto simp: run_cmd_def split: prod.splits if_splits)

lemma WorkflowException_variables:
  "convenience_variables (snd (WorkflowException d env cfg n emsg st)) = convenience_variables st"
proof (induction d arbitrary: emsg)
  case 0
  show ?case
    by (subst WorkflowException.simps)
       (simp split: sum.splits exn.splits prod.splits)
next
  case (Suc d)
  show ?case
    by (subst WorkflowException.simps)
       (simp add: Suc split: sum.splits exn.splits prod.splits)
qed

lemma WorkflowException_missing_variable:
  assumes "get cfg ''premature_end_cmd'' = Inr raw"
    and "prepare_cmd (repr_dict env) raw (convenience_variables st) = Inl (KeyError k)"
  shows "WorkflowException d env cfg n emsg st = (Uncaught RuntimeError, st)"
proof (induction d arbitrary: emsg)
  case 0
  show ?case using assms by (subst WorkflowException.simps) simp
next
  case (Suc d)
  show ?case using assms by (subst WorkflowException.simps) (simp add: Suc)
qed

lemma WorkflowException_cleanup:
  assumes "get cfg ''premature_end_cmd'' = Inr raw"
    and "prepare_cmd (repr_dict env) raw (convenience_variables st) = Inr cleanup_cmd"
  shows "WorkflowException d env cfg n emsg st =
           (case run_cmd env (world st) cleanup_cmd of
              (Inl failure, w') \<Rightarrow> (Uncaught (Exception failure), st\<lparr>world := w'\<rparr>)
            | (Inr cleanup_output, w') \<Rightarrow>
                (SysExit (Some (premature_end n emsg)),
                 print (''#Premature workflow end command executed ...'' @ newline @ cleanup_output)
                   (st\<lparr>world := w'\<rparr>)))"
  using assms by (subst WorkflowException.simps) simp

lemma run_command_success:
  assumes "get cfg (str_int n) = Inr raw"
    and "prepare_cmd (repr_dict env) raw (convenience_variables st) = Inr command"
    and "shell env (world st) command = ((res, [], 0), w')"
  shows "fst (run_command env cfg cap rr n st) = None"
    and "convenience_variables (snd (run_command env cfg cap rr n st))
           = (convenience_variables st)(cmd_output_name n \<mapsto> PyStr (strip res))"
    and "world (snd (run_command env cfg cap rr n st)) = w'"
    and "take (length (printed st) + 2) (printed (snd (run_command env cfg cap rr n st)))
           = printed st @ [''#'' @ str_int n @ '' >> '' @ slice0 command cap @ '' ...'',
                           slice0 (strip res) cap]"
proof -
  let ?st2 = "track env rr (''cmd_'' @ str_int n)
                (print (''#'' @ str_int n @ '' >> '' @ slice0 command cap @ '' ...'') st)"
  have run: "run_cmd env (world ?st2) command = (Inr (strip res), w')"
    using assms(3) by (simp add: run_cmd_success)
  show "fst (run_command env cfg cap rr n st) = None"
    using assms(1,2) run by (simp add: run_command_def Let_def)
  show "convenience_variables (snd (run_command env cfg cap rr n st))
           = (convenience_variables st)(cmd_output_name n \<mapsto> PyStr (strip res))"
    using assms(1,2) run by (simp add: run_command_def Let_def)
  show "world (snd (run_command env cfg cap rr n st)) = w'"
    using assms(1,2) run by (simp add: run_command_def Let_def)
  show "take (length (printed st) + 2) (printed (snd (run_command env cfg cap rr n st)))
           = printed st @ [''#'' @ str_int n @ '' >> '' @ slice0 command cap @ '' ...'',
                           slice0 (strip res) cap]"
    using assms(1,2) run
    by (simp add: run_command_def Let_def print_runtime_def split: option.splits)
qed

lemma run_command_variables:
  "convenience_variables (snd (run_command env cfg cap rr n st)) = convenience_variables st
   \<or> (\<exists>res. convenience_variables (snd (run_command env cfg cap rr n st))
              = (convenience_variables st)(cmd_output_name n \<mapsto> PyStr res))"
  by (auto simp: run_command_def Let_def WorkflowException_variables
           split: sum.splits exn.splits prod.splits)



lemma run_command_failure:
  assumes "get cfg (str_int n) = Inr raw"
    and "prepare_cmd (repr_dict env) raw (convenience_variables st) = Inr command"
    and "shell env (world st) command = ((res, err, rc), w1)"
    and "err \<noteq> [] \<or> rc \<noteq> 0"
  shows "\<exists>st1. convenience_variables st1 = convenience_variables st \<and> world st1 = w1 \<and>
           run_command env cfg cap rr n st =
             map_prod Some id
               (WorkflowException (recursion_limit env) env cfg n (unexpected res rc err) st1)"
proof -
  let ?st2 = "track env rr (''cmd_'' @ str_int n)
                (print (''#'' @ str_int n @ '' >> '' @ slice0 command cap @ '' ...'') st)"
  have run: "run_cmd env (world ?st2) command = (Inl (unexpected res rc err), w1)"
    using assms(3,4) by (simp add: run_cmd_failure)
  have "run_command env cfg cap rr n st =
          map_prod Some id
            (WorkflowException (recursion_limit env) env cfg n (unexpected res rc err)
               (?st2\<lparr>world := w1\<rparr>))"
    using assms(1,2) run by (simp add: run_command_def Let_def)
  then show ?thesis by (intro exI [of _ "?st2\<lparr>world := w1\<rparr>"]) simp
qed

lemma WorkflowException_no_cleanup:
  "get cfg ''premature_end_cmd'' = Inl ConfigException \<Longrightarrow>
   WorkflowException d env cfg n emsg st = (SysExit (Some (premature_end n emsg)), st)"
  by (simp add: WorkflowException.simps)

lemma zk_queue_stores:
  assumes "get cfg ''zk_queue_path'' = Inr path" and "path \<noteq> []"
    and "shell env (world st) (zookeeper_bin @ '' qpoll '' @ path) = ((res, [], 0), w')"
  shows "convenience_variables (snd (zk_queue env cfg st)) ''zk_queue_value''
           = Some (PyStr (strip res))"
  using assms by (simp add: zk_queue_def run_cmd_success)

lemma zk_queue_variables:
  "convenience_variables (snd (zk_queue env cfg st)) = convenience_variables st
   \<or> (\<exists>v. convenience_variables (snd (zk_queue env cfg st))
             = (convenience_variables st)(''zk_queue_value'' \<mapsto> PyStr v))"
  by (auto simp: zk_queue_def split: sum.splits prod.splits)

lemma dom_zk_queue:
  "dom (convenience_variables st) \<subseteq> dom (convenience_variables (snd (zk_queue env cfg st)))"
  using zk_queue_variables [of env cfg st] by auto

lemma dom_run_command:
  "dom (convenience_variables st)
     \<subseteq> dom (convenience_variables (snd (run_command env cfg cap rr n st)))"
  using run_command_variables [of env cfg cap rr n st] by auto

lemma run_command_frame:
  "k \<noteq> cmd_output_name n \<Longrightarrow>
   convenience_variables (snd (run_command env cfg cap rr n st)) k = convenience_variables st k"
  using run_command_variables [of env cfg cap rr n st] by auto

lemma run_commands_variables:
  "dom (convenience_variables st)
     \<subseteq> dom (convenience_variables (snd (run_commands env cfg cap rr plan st)))
   \<and> (\<forall>k. k \<notin> cmd_output_name ` set plan \<longrightarrow>
         convenience_variables (snd (run_commands env cfg cap rr plan st)) k
           = convenience_variables st k)"
proof (induction plan arbitrary: st)
  case Nil
  show ?case by simp
next
  case (Cons n rest)
  obtain r st' where step: "run_command env cfg cap rr n st = (r, st')"
    by (cases "run_command env cfg cap rr n st")
  have d: "dom (convenience_variables st) \<subseteq> dom (convenience_variables st')"
    using dom_run_command [of st env cfg cap rr n] step by simp
  have f: "\<And>k. k \<noteq> cmd_output_name n \<Longrightarrow> convenience_variables st' k = convenience_variables st k"
    using run_command_frame [of _ n env cfg cap rr st] step by simp
  show ?case
  proof (cases r)
    case (Some ended)
    with step have eq: "snd (run_commands env cfg cap rr (n # rest) st) = st'" by simp
    show ?thesis unfolding eq using d f by auto
  next
    case None
    with step have eq: "run_commands env cfg cap rr (n # rest) st = run_commands env cfg cap rr rest st'"
      by simp
    have IH1: "dom (convenience_variables st')
                 \<subseteq> dom (convenience_variables (snd (run_commands env cfg cap rr rest st')))"
      using Cons.IH [of st'] by (rule conjunct1)
    have IH2: "\<And>k. k \<notin> cmd_output_name ` set rest \<Longrightarrow>
                 convenience_variables (snd (run_commands env cfg cap rr rest st')) k
                   = convenience_variables st' k"
      using Cons.IH [of st'] by blast
    have "dom (convenience_variables st)
            \<subseteq> dom (convenience_variables (snd (run_commands env cfg cap rr rest st')))"
      using d IH1 by (rule subset_trans)
    moreover have "\<forall>k. k \<notin> cmd_output_name ` set (n # rest) \<longrightarrow>
         convenience_variables (snd (run_commands env cfg cap rr rest st')) k
           = convenience_variables st k"
    proof (intro allI impI)
      fix k assume k: "k \<notin> cmd_output_name ` set (n # rest)"
      then have "k \<noteq> cmd_output_name n" and "k \<notin> cmd_output_name ` set rest" by auto
      then show "convenience_variables (snd (run_commands env cfg cap rr rest st')) k
                   = convenience_variables st k"
        using IH2 [of k] f [of k] by simp
    qed
    ultimately show ?thesis unfolding eq by (rule conjI)
  qed
qed

lemma dom_initial_variables:
  "dom (initial_variables env now) = {''now'', ''YrMn'', ''YrMnDy'', ''curdate''}"
  by (auto simp: initial_variables_def split: if_splits)

lemma workflow_variables:
  "convenience_variables (snd (workflow env cfg s st)) = convenience_variables st
   \<or> {''now'', ''YrMn'', ''YrMnDy'', ''curdate''}
        \<subseteq> dom (convenience_variables (snd (workflow env cfg s st)))"
proof (cases "max_num_chars cfg")
  case (Inl e)
  then show ?thesis by (simp add: workflow_def)
next
  case cap: (Inr cap)
  show ?thesis
  proof (cases "report_runtimes cfg")
    case (Inl e)
    with cap show ?thesis by (simp add: workflow_def)
  next
    case rr: (Inr rr)
    define now where "now = clock env (world st)"
    define st1 where "st1 = st\<lparr>convenience_variables := initial_variables env now\<rparr>"
    obtain z st2 where zk: "zk_queue env cfg st1 = (z, st2)" by (cases "zk_queue env cfg st1")
    have "dom (convenience_variables st1) \<subseteq> dom (convenience_variables st2)"
      using dom_zk_queue [of st1 env cfg] zk by simp
    then have d2: "{''now'', ''YrMn'', ''YrMnDy'', ''curdate''} \<subseteq> dom (convenience_variables st2)"
      by (simp add: st1_def dom_initial_variables)
    define st3 where "st3 = track env rr ''workflow'' st2"
    have d3: "{''now'', ''YrMn'', ''YrMnDy'', ''curdate''} \<subseteq> dom (convenience_variables st3)"
      using d2 by (simp add: st3_def)
    obtain r st4 where "(r, st4) =
        (case get_workflow_cmd_num s cfg of
           Inl ended \<Rightarrow> (Some ended, st3)
         | Inr plan \<Rightarrow> run_commands env cfg cap rr plan st3)"
      by (metis surj_pair)
    note loop = this
    have "dom (convenience_variables st3) \<subseteq> dom (convenience_variables st4)"
    proof (cases "get_workflow_cmd_num s cfg")
      case (Inl ended)
      with loop show ?thesis by simp
    next
      case (Inr plan)
      with loop have "st4 = snd (run_commands env cfg cap rr plan st3)" by (metis snd_conv sum.simps(6))
      then show ?thesis using run_commands_variables [of st3 env cfg cap rr plan] by simp
    qed
    with d3 have d4: "{''now'', ''YrMn'', ''YrMnDy'', ''curdate''} \<subseteq> dom (convenience_variables st4)"
      by (rule subset_trans)
    have "convenience_variables (snd (workflow env cfg s st)) = convenience_variables st2
          \<or> convenience_variables (snd (workflow env cfg s st)) = convenience_variables st3
          \<or> convenience_variables (snd (workflow env cfg s st)) = convenience_variables st4"
      using cap rr zk loop
      by (auto simp: workflow_def Let_def now_def [symmetric] st1_def [symmetric] st3_def [symmetric]
               split: option.splits sum.splits prod.splits)
    with d2 d3 d4 show ?thesis by auto
  qed
qed

lemma main_variables:
  fixes env :: "('w, 't) env"
  shows "convenience_variables (snd (main env w argv)) = Map.empty
   \<or> {''now'', ''YrMn'', ''YrMnDy'', ''curdate''}
        \<subseteq> dom (convenience_variables (snd (main env w argv)))"
proof -
  define st :: "('w, 't) state" where
    "st = \<lparr>world = w, convenience_variables = Map.empty, runtimes = Map.empty, printed = []\<rparr>"
  have empty: "convenience_variables st = Map.empty" by (simp add: st_def)
  have cases: "snd (main env w argv) = st \<or> snd (main env w argv) = print_usage st
        \<or> (\<exists>cfg s. snd (main env w argv) = snd (workflow env cfg s st))"
    by (auto simp: main_def Let_def st_def [symmetric] split: sum.splits)
  have usage: "convenience_variables (print_usage st) = Map.empty"
    by (simp add: print_usage_def empty)
  from cases show ?thesis
  proof (elim disjE exE)
    assume "snd (main env w argv) = st"
    with empty show ?thesis by simp
  next
    assume "snd (main env w argv) = print_usage st"
    with usage show ?thesis by simp
  next
    fix cfg s assume "snd (main env w argv) = snd (workflow env cfg s st)"
    with workflow_variables [of env cfg s st] empty show ?thesis by metis
  qed
qed

lemma unreadable_config_exits_nonzero:
  "DSConfig env name = Inl msg \<Longrightarrow> exit_status (fst (main env w [prog, name])) = 1"
  by (simp add: main_def)

subsection \<open>The properties of the specification\<close>

text \<open>
  C1, as the specification states it: when a command of the loop fails and
  \<open>premature_end_cmd\<close> is configured, the cleanup command is attempted at most once, and
  a failure of the cleanup command itself is skipped silently, so that the process still
  ends with the original message naming the failing command's number. The constructor
  of \<open>WorkflowException\<close> catches \<open>ConfigException\<close> only, which is how an absent
  directive is skipped; the \<open>Exception\<close> that \<open>run_cmd\<close> raises for a failing cleanup
  command leaves the constructor and ends the process. What holds is this. When command
  \<open>n\<close> fails and the cleanup directive is configured and expands, the cleanup command is
  run once, in the world the failed command left. If it succeeds, the process exits with
  the message naming \<open>n\<close> and the error of the failed command; if it fails, the process
  ends with the exception of the cleanup command.
\<close>

theorem failure_then_cleanup:
  assumes "get cfg (str_int n) = Inr raw"
    and "prepare_cmd (repr_dict env) raw (convenience_variables st) = Inr command"
    and "shell env (world st) command = ((res, err, rc), w1)"
    and "err \<noteq> [] \<or> rc \<noteq> 0"
    and "get cfg ''premature_end_cmd'' = Inr raw_cleanup"
    and "prepare_cmd (repr_dict env) raw_cleanup (convenience_variables st) = Inr cleanup_cmd"
    and "shell env w1 cleanup_cmd = ((res2, err2, rc2), w2)"
  shows "world (snd (run_command env cfg cap rr n st)) = w2
       \<and> (err2 = [] \<and> rc2 = 0 \<longrightarrow>
            fst (run_command env cfg cap rr n st)
              = Some (SysExit (Some (premature_end n (unexpected res rc err)))))
       \<and> (err2 \<noteq> [] \<or> rc2 \<noteq> 0 \<longrightarrow>
            fst (run_command env cfg cap rr n st)
              = Some (Uncaught (Exception (unexpected res2 rc2 err2))))"
proof -
  from run_command_failure [OF assms(1-4)] obtain st1 where
    vars: "convenience_variables st1 = convenience_variables st" and w: "world st1 = w1" and
    run: "run_command env cfg cap rr n st =
            map_prod Some id
              (WorkflowException (recursion_limit env) env cfg n (unexpected res rc err) st1)"
    by blast
  have cleanup: "WorkflowException (recursion_limit env) env cfg n (unexpected res rc err) st1 =
           (case run_cmd env w1 cleanup_cmd of
              (Inl failure, w') \<Rightarrow> (Uncaught (Exception failure), st1\<lparr>world := w'\<rparr>)
            | (Inr cleanup_output, w') \<Rightarrow>
                (SysExit (Some (premature_end n (unexpected res rc err))),
                 print (''#Premature workflow end command executed ...'' @ newline @ cleanup_output)
                   (st1\<lparr>world := w'\<rparr>)))"
    using WorkflowException_cleanup [of cfg raw_cleanup env st1 cleanup_cmd] assms(5,6) vars w
    by simp
  show ?thesis
  proof (cases "err2 = [] \<and> rc2 = 0")
    case True
    with assms(7) have "run_cmd env w1 cleanup_cmd = (Inr (strip res2), w2)"
      by (simp add: run_cmd_success)
    with run cleanup True show ?thesis by simp
  next
    case False
    with assms(7) have "run_cmd env w1 cleanup_cmd = (Inl (unexpected res2 rc2 err2), w2)"
      by (simp add: run_cmd_failure)
    with run cleanup False show ?thesis by simp
  qed
qed

theorem failure_then_cleanup_witness:
  "world (snd (run_command (example_env echo_cleanup) echo_cleanup None True 1 start)) = 2
   \<and> fst (run_command (example_env echo_cleanup) echo_cleanup None True 1 start)
       = Some (SysExit (Some (premature_end 1 (unexpected [] 127 ''false: command not found''))))"
proof -
  have g: "get echo_cleanup (str_int 1) = Inr ''false''" by (simp add: echo_cleanup_def)
  have p: "prepare_cmd (repr_dict (example_env echo_cleanup)) ''false'' (convenience_variables start)
             = Inr ''false''"
    by (simp add: prepare_cmd_def py_format_text py_replace.simps)
  have s: "shell (example_env echo_cleanup) (world start) ''false''
             = (([], ''false: command not found'', 127), 1)"
    by (simp add: example_env_def echo_shell_def start_def)
  have f: "''false: command not found'' \<noteq> [] \<or> (127::int) \<noteq> 0" by simp
  have c: "get echo_cleanup ''premature_end_cmd'' = Inr ''echo cleaned up''"
    by (simp add: echo_cleanup_def)
  have pc: "prepare_cmd (repr_dict (example_env echo_cleanup)) ''echo cleaned up''
              (convenience_variables start) = Inr ''echo cleaned up''"
    by (simp add: prepare_cmd_def py_format_text py_replace.simps)
  have sc: "shell (example_env echo_cleanup) 1 ''echo cleaned up''
              = ((''cleaned up'' @ newline, [], 0), 2)"
    by (simp add: example_env_def echo_shell_def)
  from failure_then_cleanup [OF g p s f c pc sc, of None True] show ?thesis by simp
qed

theorem cleanup_failure_counterexample:
  "get failing_cleanup ''1'' = Inr ''false''
   \<and> get failing_cleanup ''premature_end_cmd'' = Inr ''rm -f /tmp/lock''
   \<and> fst (main (example_env failing_cleanup) 0 [''workflow_runner.py'', ''wf.ini''])
       = Uncaught (Exception (unexpected [] 127 ''rm -f /tmp/lock: command not found''))
   \<and> printed (snd (main (example_env failing_cleanup) 0 [''workflow_runner.py'', ''wf.ini'']))
       = [''#1 >> false ...'']"
  by code_simp

text \<open>
  C2, as the specification states it: the plan holds no number above the last number of
  the contiguous run probed from the starting number, even when \<open>always_run_cmds\<close>
  lists such a number. The generator does not do that: it starts from the whole override
  list and appends the probed numbers. What holds is this. When the override list reads
  as \<open>always\<close> (it is empty unless the starting number is above 1), the plan is the
  sorted list of \<open>always\<close> followed by the probed numbers that \<open>always\<close> does not hold;
  its numbers are those of \<open>always\<close> and those of the run; a number at or above the
  first missing one is in the plan exactly when \<open>always\<close> lists it. The run itself,
  from the starting number up to \<open>first_missing\<close>, depends on the numbered directives
  only.
\<close>

theorem plan_contents:
  assumes "always_run_cmds s cfg = Inr always"
    and "get_workflow_cmd_num s cfg = Inr plan"
  shows "plan = sort (always @ filter (\<lambda>m. m \<notin> set always) [s..first_missing cfg s - 1])
       \<and> set plan = set always \<union> {s..<first_missing cfg s}
       \<and> (\<forall>n. first_missing cfg s \<le> n \<longrightarrow> (n \<in> set plan \<longleftrightarrow> n \<in> set always))"
proof -
  from assms have plan: "plan = sort (always @ filter (\<lambda>m. m \<notin> set always) [s..first_missing cfg s - 1])"
    by (auto simp: get_workflow_cmd_num_def probe_eq Let_def split: if_splits)
  then have "set plan = set always \<union> {s..<first_missing cfg s}" by auto
  then show ?thesis using plan by auto
qed

theorem plan_contents_witness:
  "always_run_cmds 2 resumed = Inr [1, 7]
   \<and> get_workflow_cmd_num 2 resumed = Inr [1, 2, 3, 7]
   \<and> set [1, 2, 3, 7] = set [1, 7] \<union> {2..<first_missing resumed 2}"
proof -
  have a: "always_run_cmds 2 resumed = Inr [1, 7]" by code_simp
  have b: "get_workflow_cmd_num 2 resumed = Inr [1, 2, 3, 7]" by code_simp
  have c: "set [1, 2, 3, 7] = set [1, 7] \<union> {2..<first_missing resumed 2}"
    by (rule plan_contents [OF a b, THEN conjunct2, THEN conjunct1])
  from a b c show ?thesis by (intro conjI)
qed

theorem plan_above_probe_counterexample:
  "get_workflow_cmd_num 2 resumed = Inr [1, 2, 3, 7]
   \<and> first_missing resumed 2 - 1 = 3
   \<and> (7::int) \<in> set [1, 2, 3, 7] \<and> (3::int) < 7"
proof -
  have "get_workflow_cmd_num 2 resumed = Inr [1, 2, 3, 7]" by code_simp
  moreover have "first_missing resumed 2 = 4" by code_simp
  ultimately show ?thesis by simp
qed

text \<open>
  C3: every invalid invocation ends the process with a status other than 0, and status 0
  means that the workflow ran to its end. With a wrong number of arguments the script
  does not do that: it raises \<open>WFConfigException(print_usage())\<close>, \<open>print_usage\<close>
  returns \<open>None\<close>, and \<open>sys.exit(None)\<close> is status 0. Every other use of
  \<open>WFConfigException\<close> passes a message, which gives status 1
  (\<open>unreadable_config_exits_nonzero\<close> above). The theorem evaluates the script with no
  argument and with three.
\<close>

theorem wrong_argument_count_exits_zero:
  "fst (main env w [prog]) = SysExit None
   \<and> exit_status (fst (main env w [prog])) = 0
   \<and> exit_status (fst (main env w [prog, a, b, c])) = 0"
  by (simp add: main_def)

text \<open>
  C4: for a starting number \<open>s\<close> of at least 1 and a configuration whose numbered
  directives are dense up to \<open>k\<close> (every number from \<open>s\<close> to \<open>k\<close> is defined and
  \<open>k + 1\<close> is not), with \<open>s\<close> at most \<open>k\<close> and no \<open>always_run_cmds\<close> directive,
  the plan is exactly the list \<open>s, s + 1, ..., k\<close> in ascending order, and the probe
  stops at \<open>k + 1\<close>, the first missing number.
\<close>

theorem plan_dense:
  assumes "\<forall>n. s \<le> n \<and> n \<le> k \<longrightarrow> has_option cfg (str_int n)"
    and "\<not> has_option cfg (str_int (k + 1))"
    and "1 \<le> s" and "s \<le> k"
    and "get cfg ''always_run_cmds'' = Inl ConfigException"
  shows "get_workflow_cmd_num s cfg = Inr [s..k] \<and> first_missing cfg s = k + 1"
proof -
  have fm: "first_missing cfg s = k + 1" using assms(1,2,4) by (rule first_missing_dense)
  have "probe cfg s [] = [s..k]" by (simp add: probe_eq fm)
  moreover have "[s..k] \<noteq> []" using assms(4) by simp
  moreover have "sort [s..k] = [s..k]" by (simp add: sort_key_id_if_sorted)
  ultimately show ?thesis
    using fm always_run_cmds_absent [OF assms(5)] by (simp add: get_workflow_cmd_num_def)
qed

theorem plan_dense_witness:
  "get_workflow_cmd_num 2 dense = Inr [2, 3] \<and> first_missing dense 2 = 4"
proof -
  have present: "\<forall>n. 2 \<le> n \<and> n \<le> 3 \<longrightarrow> has_option dense (str_int n)"
  proof (intro allI impI)
    fix n :: int assume "2 \<le> n \<and> n \<le> 3"
    then have "n = 2 \<or> n = 3" by arith
    then show "has_option dense (str_int n)" by (auto simp: dense_def)
  qed
  have absent: "\<not> has_option dense (str_int (3 + 1))" by (simp add: dense_def)
  have none: "get dense ''always_run_cmds'' = Inl ConfigException" by (simp add: dense_def)
  have "[2..3::int] = [2, 3]" by (simp add: upto_rec1)
  with plan_dense [OF present absent _ _ none] show ?thesis by simp
qed

text \<open>
  C5: \<open>_PERC_\<close> is restored to a percent sign after the substitution, so an escaped
  percent is never read as the start of a conversion: a template without a percent
  sign is returned with every \<open>_PERC_\<close> replaced, whatever follows the token and
  whatever the mapping holds. In particular \<open>a_PERC_b\<close> expands to \<open>a%b\<close> on the
  empty mapping, and \<open>_PERC_(now)s\<close> expands to the text \<open>%(now)s\<close>, not to the value
  of \<open>now\<close>.
\<close>

theorem prepare_cmd_escape:
  "(CHR ''%'' \<notin> set t \<longrightarrow> prepare_cmd rd t vars = Inr (py_replace ''_PERC_'' ''%'' t))
   \<and> prepare_cmd rd ''a_PERC_b'' Map.empty = Inr ''a%b''
   \<and> prepare_cmd rd ''_PERC_(now)s'' [''now'' \<mapsto> PyStr ''2013''] = Inr ''%(now)s''"
  by (simp add: prepare_cmd_def py_format_text py_replace.simps)

theorem prepare_cmd_escape_witness:
  "CHR ''%'' \<notin> set ''date +_PERC_Y_PERC_m''
   \<and> prepare_cmd braces ''date +_PERC_Y_PERC_m'' Map.empty = Inr ''date +%Y%m''"
  using prepare_cmd_escape [of "''date +_PERC_Y_PERC_m''" braces Map.empty]
  by (simp add: py_replace.simps)

text \<open>
  C6, as the specification states it: a template without placeholders expands to
  itself. The template \<open>a_PERC_b\<close> has no placeholder, not even a percent sign, and
  expands to \<open>a%b\<close>: the escape token is rewritten by design. What holds is this: a
  template with no percent sign and no occurrence of \<open>_PERC_\<close> expands to itself, for
  every mapping.
\<close>

theorem prepare_cmd_identity:
  assumes "CHR ''%'' \<notin> set t" and "\<not> occurs ''_PERC_'' t"
  shows "prepare_cmd rd t vars = Inr t"
  using assms by (simp add: prepare_cmd_def py_format_text py_replace_absent)

theorem prepare_cmd_identity_witness:
  "prepare_cmd braces ''ls /'' [''YrMn'' \<mapsto> PyStr ''201310''] = Inr ''ls /''"
  using prepare_cmd_identity [of "''ls /''" braces "[''YrMn'' \<mapsto> PyStr ''201310'']"]
  by simp

theorem expansion_identity_counterexample:
  "CHR ''%'' \<notin> set ''a_PERC_b''
   \<and> prepare_cmd braces ''a_PERC_b'' Map.empty = Inr ''a%b''
   \<and> ''a%b'' \<noteq> ''a_PERC_b''"
  by (simp add: prepare_cmd_def py_format_text py_replace.simps)

text \<open>
  C7: a template that references a name absent from the mapping does not expand: it
  fails with \<open>KeyError\<close> of that name, and nothing is substituted. A template
  references \<open>k\<close> when the formatting operator reaches a conversion \<open>%(k)\<close>: the text
  \<open>p\<close> before it is well formed, that is, it expands by itself. In the loop, with no
  cleanup directive, the process then exits with the message that names the command
  and the variable, and the state is as it was: no command was run. The example after
  the theorem is command 2 referencing \<open>cmd_2_output\<close>, its own output, after
  command 1 has run.
\<close>

theorem missing_variable:
  assumes "py_format (repr_dict env) p (convenience_variables st) = Inr s"
    and "CHR ''('' \<notin> set k" and "CHR '')'' \<notin> set k"
    and "convenience_variables st k = None"
  shows "prepare_cmd (repr_dict env) (p @ ''%('' @ k @ '')'' @ rest) (convenience_variables st)
           = Inl (KeyError k)
       \<and> (get cfg (str_int n) = Inr (p @ ''%('' @ k @ '')'' @ rest) \<longrightarrow>
          get cfg ''premature_end_cmd'' = Inl ConfigException \<longrightarrow>
            run_command env cfg cap rr n st
              = (Some (SysExit (Some (premature_end n (required_variable k)))), st))"
proof -
  have "prepare_cmd (repr_dict env) (p @ ''%('' @ k @ '')'' @ rest) (convenience_variables st)
          = Inl (KeyError k)"
    using py_format_missing_key [OF assms] by (simp add: prepare_cmd_def)
  then show ?thesis
    by (simp add: run_command_def WorkflowException_no_cleanup)
qed

theorem missing_variable_witness:
  "prepare_cmd braces ''echo %(cmd_1_output)s %(cmd_2_output)s''
       [''cmd_1_output'' \<mapsto> PyStr ''hello''] = Inl (KeyError ''cmd_2_output'')
   \<and> run_command (example_env forward_reference) forward_reference None True 2 after_first
       = (Some (SysExit (Some (premature_end 2 (required_variable ''cmd_2_output'')))), after_first)"
proof -
  have p: "py_format (repr_dict (example_env forward_reference)) ''echo %(cmd_1_output)s ''
             (convenience_variables after_first) = Inr ''echo hello ''"
    by (simp add: example_env_def after_first_def format_defs)
  have k: "convenience_variables after_first ''cmd_2_output'' = None"
    by (simp add: after_first_def)
  have g: "get forward_reference (str_int 2) = Inr ''echo %(cmd_1_output)s %(cmd_2_output)s''"
    by (simp add: forward_reference_def)
  have c: "get forward_reference ''premature_end_cmd'' = Inl ConfigException"
    by (simp add: forward_reference_def)
  from missing_variable [OF p _ _ k, of "''s''" forward_reference 2 None True] g c
  show ?thesis by (simp add: example_env_def after_first_def)
qed

text \<open>
  C8: \<open>max_num_chars_cmd_output\<close> bounds what is printed and nothing else. When
  command \<open>n\<close> succeeds, the two lines printed for it are the command line and the
  output, each cut by \<open>[0:num_chars_to_log]\<close>; the value stored under
  \<open>cmd_n_output\<close> is the whole stripped output, whatever the bound is, and a later
  \<open>%(cmd_n_output)s\<close> expands to it. Without the directive the bound is \<open>None\<close>, and
  with \<open>None\<close> the slice is the whole string.
\<close>

theorem truncation_only_in_log:
  assumes "get cfg (str_int n) = Inr raw"
    and "prepare_cmd (repr_dict env) raw (convenience_variables st) = Inr command"
    and "shell env (world st) command = ((res, [], 0), w')"
  shows "convenience_variables (snd (run_command env cfg cap rr n st))
           = (convenience_variables st)(cmd_output_name n \<mapsto> PyStr (strip res))
       \<and> take (length (printed st) + 2) (printed (snd (run_command env cfg cap rr n st)))
           = printed st @ [''#'' @ str_int n @ '' >> '' @ slice0 command cap @ '' ...'',
                           slice0 (strip res) cap]
       \<and> py_format (repr_dict env) (''%('' @ cmd_output_name n @ '')s'')
             (convenience_variables (snd (run_command env cfg cap rr n st))) = Inr (strip res)
       \<and> slice0 command None = command \<and> slice0 (strip res) None = strip res
       \<and> (get cfg ''max_num_chars_cmd_output'' = Inl ConfigException \<longrightarrow>
            max_num_chars cfg = Inr None)"
proof -
  have vars: "convenience_variables (snd (run_command env cfg cap rr n st))
           = (convenience_variables st)(cmd_output_name n \<mapsto> PyStr (strip res))"
    using assms by (rule run_command_success(2))
  have log: "take (length (printed st) + 2) (printed (snd (run_command env cfg cap rr n st)))
           = printed st @ [''#'' @ str_int n @ '' >> '' @ slice0 command cap @ '' ...'',
                           slice0 (strip res) cap]"
    using assms by (rule run_command_success(4))
  have "py_format (repr_dict env) (''%('' @ cmd_output_name n @ '')s'')
          ((convenience_variables st)(cmd_output_name n \<mapsto> PyStr (strip res)))
          = Inr (py_str (PyStr (strip res)))"
    by (rule py_format_lookup) (simp_all add: cmd_output_name_no_parens)
  with vars log show ?thesis by (simp add: slice0_def max_num_chars_def)
qed

theorem truncation_only_in_log_witness:
  "convenience_variables (snd (run_command (example_env greeting) greeting (Some 5) True 1 start))
       ''cmd_1_output'' = Some (PyStr ''hello world'')
   \<and> take 2 (printed (snd (run_command (example_env greeting) greeting (Some 5) True 1 start)))
       = [''#1 >> echo  ...'', ''hello'']"
proof -
  have g: "get greeting (str_int 1) = Inr ''echo hello world''" by (simp add: greeting_def)
  have p: "prepare_cmd (repr_dict (example_env greeting)) ''echo hello world''
             (convenience_variables start) = Inr ''echo hello world''"
    by (simp add: prepare_cmd_def py_format_text py_replace.simps)
  have s: "shell (example_env greeting) (world start) ''echo hello world''
             = ((''hello world'' @ newline, [], 0), 1)"
    by (simp add: example_env_def echo_shell_def start_def)
  have strip: "strip (''hello world'' @ newline) = ''hello world''"
    by (simp add: strip_def newline_def isspace_def)
  note T = truncation_only_in_log [OF g p s, of "Some 5" True]
  have v: "convenience_variables (snd (run_command (example_env greeting) greeting (Some 5) True 1 start))
             = (convenience_variables start)(cmd_output_name 1 \<mapsto> PyStr (strip (''hello world'' @ newline)))"
    using T by (rule conjunct1)
  have l: "take (length (printed start) + 2)
             (printed (snd (run_command (example_env greeting) greeting (Some 5) True 1 start)))
           = printed start @ [''#'' @ str_int 1 @ '' >> '' @ slice0 ''echo hello world'' (Some 5) @ '' ...'',
                              slice0 (strip (''hello world'' @ newline)) (Some 5)]"
    using T by (rule conjunct2 [THEN conjunct1])
  have "printed start = []" by (simp add: start_def)
  with l [unfolded strip]
  have "take 2 (printed (snd (run_command (example_env greeting) greeting (Some 5) True 1 start)))
          = [''#1 >> echo  ...'', ''hello'']"
    by (simp add: slice0_def numeral_2_eq_2)
  then show ?thesis unfolding v [unfolded strip] by (simp add: cmd_output_name_def)
qed

text \<open>
  C9: the variable mapping only grows. Reading the queue value, one pass of the loop
  and the whole loop keep every name that is defined; the loop changes no entry but
  the outputs of the commands of the plan; the failure handler leaves the mapping as it
  is; and at the end of every run the mapping is either still empty (the process ended
  before the convenience variables were set) or holds \<open>now\<close>, \<open>YrMn\<close>, \<open>YrMnDy\<close> and
  \<open>curdate\<close>.
\<close>

theorem variables_only_grow:
  "dom (convenience_variables st) \<subseteq> dom (convenience_variables (snd (zk_queue env cfg st)))
   \<and> dom (convenience_variables st)
        \<subseteq> dom (convenience_variables (snd (run_command env cfg cap rr n st)))
   \<and> dom (convenience_variables st)
        \<subseteq> dom (convenience_variables (snd (run_commands env cfg cap rr plan st)))
   \<and> (\<forall>k. k \<notin> cmd_output_name ` set plan \<longrightarrow>
          convenience_variables (snd (run_commands env cfg cap rr plan st)) k
            = convenience_variables st k)
   \<and> convenience_variables (snd (WorkflowException d env cfg n emsg st)) = convenience_variables st
   \<and> (convenience_variables (snd (main env w argv)) = Map.empty
       \<or> {''now'', ''YrMn'', ''YrMnDy'', ''curdate''}
            \<subseteq> dom (convenience_variables (snd (main env w argv))))"
  using dom_zk_queue [of st env cfg] dom_run_command [of st env cfg cap rr n]
    run_commands_variables [of st env cfg cap rr plan]
    WorkflowException_variables [of d env cfg n emsg st] main_variables [of env w argv]
  by (intro conjI) blast+

theorem variables_only_grow_witness:
  "convenience_variables
     (snd (run_commands (example_env greeting) greeting None True [2] after_first)) ''cmd_1_output''
     = Some (PyStr ''hello'')"
proof -
  have "''cmd_1_output'' \<notin> cmd_output_name ` set [2]"
    by (simp add: cmd_output_name_def)
  with variables_only_grow [of after_first "example_env greeting" greeting None True 2 "[2]"]
  have "convenience_variables
          (snd (run_commands (example_env greeting) greeting None True [2] after_first))
          ''cmd_1_output'' = convenience_variables after_first ''cmd_1_output''"
    by blast
  then show ?thesis by (simp add: after_first_def)
qed

text \<open>
  C10: the value stored for a command that ran, under \<open>cmd_n_output\<close>, and the value
  stored under \<open>zk_queue_value\<close>, is the standard output of the command stripped of
  whitespace at both ends; when it is not empty it neither starts nor ends with
  whitespace, so it does not end with a newline.
\<close>

theorem stored_output_is_stripped:
  "(get cfg (str_int n) = Inr raw \<longrightarrow>
      prepare_cmd (repr_dict env) raw (convenience_variables st) = Inr command \<longrightarrow>
      shell env (world st) command = ((res, [], 0), w') \<longrightarrow>
        convenience_variables (snd (run_command env cfg cap rr n st)) (cmd_output_name n)
          = Some (PyStr (strip res)))
   \<and> (get cfg ''zk_queue_path'' = Inr path \<longrightarrow> path \<noteq> [] \<longrightarrow>
       shell env (world st) (zookeeper_bin @ '' qpoll '' @ path) = ((res, [], 0), w') \<longrightarrow>
        convenience_variables (snd (zk_queue env cfg st)) ''zk_queue_value''
          = Some (PyStr (strip res)))
   \<and> (strip res \<noteq> [] \<longrightarrow>
        \<not> isspace (hd (strip res)) \<and> \<not> isspace (last (strip res))
        \<and> last (strip res) \<noteq> CHR 0x0A)"
proof -
  have "\<not> isspace (last (strip res)) \<Longrightarrow> last (strip res) \<noteq> CHR 0x0A"
    by (auto simp: isspace_def)
  then show ?thesis
    using strip_ends [of res] by (auto simp: run_command_success(2) zk_queue_stores)
qed

theorem stored_output_is_stripped_witness:
  "convenience_variables (snd (run_command (example_env greeting) greeting None True 1 start))
       (cmd_output_name 1) = Some (PyStr ''hello world'')
   \<and> last ''hello world'' \<noteq> CHR 0x0A"
proof -
  have g: "get greeting (str_int 1) = Inr ''echo hello world''" by (simp add: greeting_def)
  have p: "prepare_cmd (repr_dict (example_env greeting)) ''echo hello world''
             (convenience_variables start) = Inr ''echo hello world''"
    by (simp add: prepare_cmd_def py_format_text py_replace.simps)
  have s: "shell (example_env greeting) (world start) ''echo hello world''
             = ((''hello world'' @ newline, [], 0), 1)"
    by (simp add: example_env_def echo_shell_def start_def)
  have strip: "strip (''hello world'' @ newline) = ''hello world''"
    by (simp add: strip_def newline_def isspace_def)
  note T = stored_output_is_stripped
    [of greeting 1 "''echo hello world''" "example_env greeting" start "''echo hello world''"
        "''hello world'' @ newline" 1 None True, unfolded strip]
  from T g p s [unfolded strip] show ?thesis by simp
qed

end
